theory Spec2Isabelle
  imports Main
begin

section \<open>Project management tools of the Basic Memory MCP server\<close>

text \<open>
  A shallow embedding of \<^verbatim>\<open>src/basic_memory/mcp/tools/project_management.py\<close>: the five
  tool handlers \<^verbatim>\<open>list_memory_projects\<close>, \<^verbatim>\<open>switch_project\<close>, \<^verbatim>\<open>get_current_project\<close>,
  \<^verbatim>\<open>create_memory_project\<close> and \<^verbatim>\<open>delete_project\<close>.

  Every handler is a function from the world before the call to its outcome and the world
  after it. The outcome is \<open>Inr text\<close> when the handler returns and \<open>Inl e\<close> when an
  exception leaves it. The world holds the session's current project, the HTTP requests
  issued so far and the lines handed to the logger.

  The optional \<^verbatim>\<open>Context\<close> argument of every handler is taken at its default \<^verbatim>\<open>None\<close>.
\<close>

subsection \<open>Python values\<close>

datatype error =
    NameError string
  | ValueError string
  | RemoteCallFailure string

definition str_error :: "error \<Rightarrow> string" where
  "str_error e =
     (case e of
        NameError n \<Rightarrow> ''name '' @ [CHR 0x27] @ n @ [CHR 0x27] @ '' is not defined''
      | ValueError m \<Rightarrow> m
      | RemoteCallFailure m \<Rightarrow> m)"

text \<open>
  Reading a name that neither the function nor the module binds raises \<^verbatim>\<open>NameError\<close>.
\<close>

definition unbound_name :: "string \<Rightarrow> error + 'a" where
  "unbound_name n = Inl (NameError n)"

text \<open>
  Strings are byte lists (UTF-8). \<^verbatim>\<open>str.lower\<close> and \<^verbatim>\<open>str.strip\<close> are modelled on the
  ASCII range; bytes outside it are left as they are.
\<close>

definition lower_char :: "char \<Rightarrow> char" where
  "lower_char c =
     (case map_of (zip ''ABCDEFGHIJKLMNOPQRSTUVWXYZ'' ''abcdefghijklmnopqrstuvwxyz'') c of
        None \<Rightarrow> c
      | Some d \<Rightarrow> d)"

definition lower :: "string \<Rightarrow> string" where
  "lower s = map lower_char s"

definition is_space :: "char \<Rightarrow> bool" where
  "is_space c = List.member [CHR '' '', CHR 0x09, CHR 0x0A, CHR 0x0B, CHR 0x0C, CHR 0x0D] c"

definition strip :: "string \<Rightarrow> string" where
  "strip s = rev (dropWhile is_space (rev (dropWhile is_space s)))"

fun join :: "string \<Rightarrow> string list \<Rightarrow> string" where
  "join sep [] = []"
| "join sep [x] = x"
| "join sep (x # y # ys) = x @ sep @ join sep (y # ys)"

function str_nat :: "nat \<Rightarrow> string" where
  "str_nat n =
     (if n < 10 then [''0123456789'' ! n]
      else str_nat (n div 10) @ [''0123456789'' ! (n mod 10)])"
  by pat_completeness auto
termination
  by (relation "measure id") auto

definition str_int :: "int \<Rightarrow> string" where
  "str_int i = (if i < 0 then ''-'' @ str_nat (nat (- i)) else str_nat (nat i))"

text \<open>\<^verbatim>\<open>urllib.parse.quote(s, safe="")\<close>: every byte but the unreserved ones becomes \<^verbatim>\<open>%XX\<close>.\<close>

definition unreserved :: "char \<Rightarrow> bool" where
  "unreserved c =
     List.member
       (''ABCDEFGHIJKLMNOPQRSTUVWXYZ'' @ ''abcdefghijklmnopqrstuvwxyz'' @ ''0123456789'' @ ''_.-~'') c"

definition quote_char :: "char \<Rightarrow> string" where
  "quote_char c =
     (if unreserved c then [c]
      else [CHR ''%'', ''0123456789ABCDEF'' ! ((of_char c :: nat) div 16),
            ''0123456789ABCDEF'' ! ((of_char c :: nat) mod 16)])"

definition quote :: "string \<Rightarrow> string" where
  "quote s = concat (map quote_char s)"

definition nl :: string where
  "nl = [CHR 0x0A]"

definition bullet :: string where
  "bullet = [CHR 0xE2, CHR 0x80, CHR 0xA2]"

definition check_mark :: string where
  "check_mark = [CHR 0xE2, CHR 0x9C, CHR 0x93]"

definition apos :: string where
  "apos = [CHR 0x27]"

subsection \<open>Schemas\<close>

record project_item =
  name :: string
  path :: string
  permalink :: string

record project_statistics =
  total_entities :: int
  total_observations :: int
  total_relations :: int

record project_info_response =
  statistics :: project_statistics

record project_status_response =
  message :: string
  new_project :: "project_item option"
  old_project :: "project_item option"

record project_config =
  project_url :: string

datatype project_info_request = ProjectInfoRequest string string bool

subsection \<open>The world and the collaborators\<close>

datatype request =
    GET string "(string \<times> string) list"
  | POST string project_info_request
  | DELETE string

datatype log_line = Warning string | Error string

record world =
  current_project :: string
  requests :: "request list"
  logged :: "log_line list"

text \<open>
  What the handlers call and do not define. The four responses are the outcome of the
  HTTP call followed by \<^verbatim>\<open>model_validate(response.json())\<close>: \<open>Inl\<close> when either raises.

  The module uses \<^verbatim>\<open>get_project_config\<close>, \<^verbatim>\<open>add_project_metadata\<close>, \<^verbatim>\<open>ProjectInfoResponse\<close>,
  \<^verbatim>\<open>logger\<close> and \<^verbatim>\<open>dedent\<close> without an import line; they are components of the server and
  of the standard library outside this file and are taken as given, like the imported
  \<^verbatim>\<open>call_get\<close>, \<^verbatim>\<open>call_post\<close>, \<^verbatim>\<open>call_delete\<close> and \<^verbatim>\<open>generate_permalink\<close>.
  The names \<^verbatim>\<open>current\<close> (line 64) and \<^verbatim>\<open>matching_project\<close> (line 302) are of another
  kind: they are variables of a function body that the function never assigns, so reading
  them raises \<^verbatim>\<open>NameError\<close> (see \<open>unbound_name\<close>).
\<close>

record env =
  environ :: "string \<Rightarrow> string option"
  projects_response :: "error + project_item list"
  info_response :: "string \<Rightarrow> string \<Rightarrow> error + project_info_response"
  create_response :: "project_info_request \<Rightarrow> error + project_status_response"
  delete_response :: "string \<Rightarrow> error + project_status_response"
  get_project_config :: "string \<Rightarrow> error + project_config"
  add_project_metadata :: "string \<Rightarrow> string \<Rightarrow> string"
  generate_permalink :: "string \<Rightarrow> string"
  dedent :: "string \<Rightarrow> string"

definition issue :: "request \<Rightarrow> world \<Rightarrow> world" where
  "issue r w = w\<lparr>requests := requests w @ [r]\<rparr>"

definition logger :: "log_line \<Rightarrow> world \<Rightarrow> world" where
  "logger l w = w\<lparr>logged := logged w @ [l]\<rparr>"

text \<open>
  Modelled from the spec: the Session State of section 4.1, which the module reaches as
  \<^verbatim>\<open>session\<close> and does not define. It is a single cell: \<open>get_current_project\<close> reads it,
  \<open>set_current_project\<close> overwrites it with no validation.
\<close>

definition session_get_current_project :: "world \<Rightarrow> string" where
  "session_get_current_project w = current_project w"

definition session_set_current_project :: "string \<Rightarrow> world \<Rightarrow> world" where
  "session_set_current_project n w = w\<lparr>current_project := n\<rparr>"

text \<open>
  \<^verbatim>\<open>os.environ.get("BASIC_MEMORY_MCP_PROJECT")\<close> under \<^verbatim>\<open>if constrained_project:\<close>: an unset
  variable and the empty string are both false.
\<close>

definition constrained_project :: "env \<Rightarrow> string option" where
  "constrained_project env =
     (case environ env ''BASIC_MEMORY_MCP_PROJECT'' of
        None \<Rightarrow> None
      | Some s \<Rightarrow> (if s = [] then None else Some s))"

subsection \<open>create\_memory\_project (lines 195-246)\<close>

definition create_memory_project ::
    "env \<Rightarrow> string \<Rightarrow> string \<Rightarrow> bool \<Rightarrow> world \<Rightarrow> (error + string) \<times> world" where
  "create_memory_project env project_name project_path set_default w =
     (case constrained_project env of
        Some pin \<Rightarrow>
          (Inr (''# Error'' @ nl @ nl
                @ ''Project creation disabled - MCP server is constrained to project ''
                @ apos @ pin @ apos @ ''.'' @ nl
                @ ''Use the CLI to create projects: `basic-memory project add ''
                @ [CHR 0x22] @ project_name @ [CHR 0x22] @ '' ''
                @ [CHR 0x22] @ project_path @ [CHR 0x22] @ ''`''), w)
      | None \<Rightarrow>
          (let project_request = ProjectInfoRequest project_name project_path set_default;
               w1 = issue (POST ''/projects/projects'' project_request) w
           in case create_response env project_request of
                Inl e \<Rightarrow> (Inl e, w1)
              | Inr status_response \<Rightarrow>
                  (let result = check_mark @ '' '' @ message status_response @ nl @ nl;
                       result2 =
                         (case new_project status_response of
                            None \<Rightarrow> result
                          | Some np \<Rightarrow>
                              result @ ''Project Details:'' @ nl
                              @ bullet @ '' Name: '' @ name np @ nl
                              @ bullet @ '' Path: '' @ path np @ nl
                              @ (if set_default then bullet @ '' Set as default project'' @ nl
                                 else []))
                   in (Inr (result2 @ nl @ ''Project is now available for use in tool calls.'' @ nl
                            @ ''Use '' @ apos @ project_name @ apos
                            @ '' as the project parameter in MCP tool calls.'' @ nl), w1))))"

subsection \<open>list\_memory\_projects (lines 21-64)\<close>

text \<open>
  The project list is fetched before the branch on the constraint. The text is built in
  \<open>list_result\<close>; the \<^verbatim>\<open>return\<close> of line 64 reads the variable \<^verbatim>\<open>current\<close>, which nothing
  assigns.
\<close>

definition list_result :: "string option \<Rightarrow> project_item list \<Rightarrow> string" where
  "list_result pin project_list =
     (case pin of
        Some p \<Rightarrow>
          ''Project: '' @ p @ nl @ nl
          @ ''Note: This MCP server is constrained to a single project.'' @ nl
          @ ''All operations will automatically use this project.''
      | None \<Rightarrow>
          foldl (\<lambda>result project. result @ bullet @ '' '' @ name project @ nl)
            (''Available projects:'' @ nl) project_list)"

definition list_memory_projects :: "env \<Rightarrow> world \<Rightarrow> (error + string) \<times> world" where
  "list_memory_projects env w =
     (let pin = constrained_project env;
          w1 = issue (GET ''/projects/projects'' []) w
      in case projects_response env of
           Inl e \<Rightarrow> (Inl e, w1)
         | Inr project_list \<Rightarrow>
             (let result = list_result pin project_list
              in case unbound_name ''current'' of
                   Inl e \<Rightarrow> (Inl e, w1)
                 | Inr current \<Rightarrow> (Inr (add_project_metadata env result current), w1)))"

subsection \<open>switch\_project (lines 67-161)\<close>

text \<open>The loop of lines 94-98: the first project whose lowered name is the lowered input.\<close>

fun find_matching_project :: "string \<Rightarrow> project_item list \<Rightarrow> project_item option" where
  "find_matching_project project_name [] = None"
| "find_matching_project project_name (p # ps) =
     (if lower (name p) = lower project_name then Some p
      else find_matching_project project_name ps)"

definition not_found_message :: "string \<Rightarrow> project_item list \<Rightarrow> string" where
  "not_found_message project_name project_list =
     ''Project '' @ apos @ project_name @ apos @ '' not found. Available projects: ''
     @ join '', '' (map name project_list)"

definition ind :: string where
  "ind = replicate 12 (CHR '' '')"

text \<open>The f-string of lines 141-161, before \<^verbatim>\<open>dedent\<close> and \<^verbatim>\<open>strip\<close>.\<close>

definition switch_failed_text :: "string \<Rightarrow> error \<Rightarrow> string \<Rightarrow> string" where
  "switch_failed_text project_name e current =
     nl @ ind @ ''# Project Switch Failed'' @ nl
     @ nl
     @ ind @ ''Could not switch to project '' @ apos @ project_name @ apos @ '': ''
       @ str_error e @ nl
     @ nl
     @ ind @ ''## Current project: '' @ current @ nl
     @ ind @ ''Your session remains on the previous project.'' @ nl
     @ nl
     @ ind @ ''## Troubleshooting:'' @ nl
     @ ind @ ''1. **Check available projects**: Use `list_projects()` to see valid project names''
       @ nl
     @ ind @ ''2. **Verify spelling**: Ensure the project name is spelled correctly'' @ nl
     @ ind @ ''3. **Check permissions**: Verify you have access to the requested project'' @ nl
     @ ind @ ''4. **Try again**: The error might be temporary'' @ nl
     @ nl
     @ ind @ ''## Available options:'' @ nl
     @ ind @ ''- See all projects: `list_projects()`'' @ nl
     @ ind @ ''- Stay on current project: `get_current_project()`'' @ nl
     @ ind @ ''- Try different project: `switch_project('' @ [CHR 0x22]
       @ ''correct-project-name'' @ [CHR 0x22] @ '')`'' @ nl
     @ nl
     @ ind @ ''If the project should exist but isn't listed, send a message to ''
       @ ''support@basicmachines.co.'' @ nl
     @ ind"

text \<open>
  The handler of lines 135-161. Its argument \<open>current\<close> is the value the variable
  \<^verbatim>\<open>current_project\<close> holds when the exception is caught.
\<close>

definition switch_failed :: "env \<Rightarrow> string \<Rightarrow> error \<Rightarrow> string \<Rightarrow> world \<Rightarrow> (error + string) \<times> world" where
  "switch_failed env project_name e current w =
     (let w1 = logger (Error (''Error switching to project '' @ project_name @ '': ''
                              @ str_error e)) w;
          w2 = session_set_current_project current w1
      in (Inr (strip (dedent env (switch_failed_text project_name e current))), w2))"

definition switched_summary :: "string \<Rightarrow> project_info_response \<Rightarrow> string" where
  "switched_summary actual_project_name project_info =
     check_mark @ '' Switched to '' @ actual_project_name @ '' project'' @ nl @ nl
     @ ''Project Summary:'' @ nl
     @ bullet @ '' '' @ str_int (total_entities (statistics project_info)) @ '' entities'' @ nl
     @ bullet @ '' '' @ str_int (total_observations (statistics project_info))
       @ '' observations'' @ nl
     @ bullet @ '' '' @ str_int (total_relations (statistics project_info)) @ '' relations'' @ nl"

definition switched_no_summary :: "string \<Rightarrow> string" where
  "switched_no_summary actual_project_name =
     check_mark @ '' Switched to '' @ actual_project_name @ '' project'' @ nl @ nl
     @ ''Project summary unavailable.'' @ nl"

text \<open>
  \<open>current_project_87\<close> and \<open>current_project_109\<close> are the two values of the one Python
  variable \<^verbatim>\<open>current_project\<close>: line 87 assigns it before the \<^verbatim>\<open>try\<close>, line 109 assigns
  it again after the session has been set.
\<close>

definition switch_project :: "env \<Rightarrow> string \<Rightarrow> world \<Rightarrow> (error + string) \<times> world" where
  "switch_project env project_name w =
     (let current_project_87 = session_get_current_project w;
          w1 = issue (GET ''/projects/projects'' []) w
      in case projects_response env of
           Inl e \<Rightarrow> switch_failed env project_name e current_project_87 w1
         | Inr project_list \<Rightarrow>
             (case find_matching_project project_name project_list of
                None \<Rightarrow> (Inr (''Error: '' @ not_found_message project_name project_list), w1)
              | Some matching_project \<Rightarrow>
                  (let actual_project_name = name matching_project;
                       w2 = session_set_current_project actual_project_name w1;
                       current_project_109 = session_get_current_project w2
                   in case get_project_config env current_project_109 of
                        Inl e \<Rightarrow> switch_failed env project_name e current_project_109 w2
                      | Inr project_config \<Rightarrow>
                          (let url = project_url project_config @ ''/project/info'';
                               w3 = issue (GET url [(''project_name'', actual_project_name)]) w2
                           in case info_response env url actual_project_name of
                                Inr project_info \<Rightarrow>
                                  (Inr (add_project_metadata env
                                          (switched_summary actual_project_name project_info)
                                          actual_project_name), w3)
                              | Inl e \<Rightarrow>
                                  (Inr (add_project_metadata env
                                          (switched_no_summary actual_project_name)
                                          actual_project_name),
                                   logger (Warning (''Could not get project info for ''
                                                    @ actual_project_name @ '': '' @ str_error e))
                                     w3)))))"

subsection \<open>get\_current\_project (lines 164-192)\<close>

definition get_current_project :: "env \<Rightarrow> world \<Rightarrow> (error + string) \<times> world" where
  "get_current_project env w =
     (let current = session_get_current_project w
      in case get_project_config env current of
           Inl e \<Rightarrow> (Inl e, w)
         | Inr project_config \<Rightarrow>
             (let result = ''Current project: '' @ current @ nl @ nl;
                  url = project_url project_config @ ''/project/info'';
                  w1 = issue (GET url [(''project_name'', current)]) w
              in case info_response env url current of
                   Inl e \<Rightarrow> (Inl e, w1)
                 | Inr project_info \<Rightarrow> (Inr result, w1)))"

subsection \<open>delete\_project (lines 249-322)\<close>

text \<open>The loop of lines 285-293: permalink first, then the lowered name.\<close>

fun find_target_project :: "string \<Rightarrow> string \<Rightarrow> project_item list \<Rightarrow> project_item option" where
  "find_target_project project_permalink project_name [] = None"
| "find_target_project project_permalink project_name (p # ps) =
     (if permalink p = project_permalink then Some p
      else if lower (name p) = lower project_name then Some p
      else find_target_project project_permalink project_name ps)"

definition removed_text :: "project_status_response \<Rightarrow> string" where
  "removed_text status_response =
     check_mark @ '' '' @ message status_response @ nl @ nl
     @ (case old_project status_response of
          None \<Rightarrow> []
        | Some op \<Rightarrow>
            ''Removed project details:'' @ nl
            @ bullet @ '' Name: '' @ name op @ nl
            @ bullet @ '' Path: '' @ path op @ nl)
     @ ''Files remain on disk but project is no longer tracked by Basic Memory.'' @ nl
     @ ''Re-add the project to access its content again.'' @ nl"

text \<open>
  Line 302 reads \<^verbatim>\<open>matching_project\<close>, a variable of \<open>switch_project\<close> that \<open>delete_project\<close>
  never assigns; the lines after it run only if that read returns.
\<close>

definition delete_project :: "env \<Rightarrow> string \<Rightarrow> world \<Rightarrow> (error + string) \<times> world" where
  "delete_project env project_name w =
     (case constrained_project env of
        Some pin \<Rightarrow>
          (Inr (''# Error'' @ nl @ nl
                @ ''Project deletion disabled - MCP server is constrained to project ''
                @ apos @ pin @ apos @ ''.'' @ nl
                @ ''Use the CLI to delete projects: `basic-memory project remove ''
                @ [CHR 0x22] @ project_name @ [CHR 0x22] @ ''`''), w)
      | None \<Rightarrow>
          (let w1 = issue (GET ''/projects/projects'' []) w
           in case projects_response env of
                Inl e \<Rightarrow> (Inl e, w1)
              | Inr project_list \<Rightarrow>
                  (let project_permalink = generate_permalink env project_name
                   in case find_target_project project_permalink project_name project_list of
                        None \<Rightarrow>
                          (Inl (ValueError (not_found_message project_name project_list)), w1)
                      | Some target_project \<Rightarrow>
                          (case (unbound_name ''matching_project'' :: error + project_item) of
                             Inl e \<Rightarrow> (Inl e, w1)
                           | Inr matching_project \<Rightarrow>
                               (let actual_project_name = name matching_project;
                                    encoded_name = quote (name target_project);
                                    w2 = issue (DELETE (''/projects/'' @ encoded_name)) w1
                                in case delete_response env encoded_name of
                                     Inl e \<Rightarrow> (Inl e, w2)
                                   | Inr status_response \<Rightarrow>
                                       (Inr (removed_text status_response), w2))))))"

subsection \<open>Concrete inputs\<close>

definition alpha :: project_item where
  "alpha = \<lparr>name = ''alpha'', path = ''/data/alpha'', permalink = ''alpha''\<rparr>"

definition beta :: project_item where
  "beta = \<lparr>name = ''beta'', path = ''/data/beta'', permalink = ''beta''\<rparr>"

definition my_project :: project_item where
  "my_project = \<lparr>name = ''My Project'', path = ''/data/my'', permalink = ''my-project''\<rparr>"

definition on_alpha :: world where
  "on_alpha = \<lparr>current_project = ''alpha'', requests = [], logged = []\<rparr>"

definition stats :: "int \<Rightarrow> int \<Rightarrow> int \<Rightarrow> project_info_response" where
  "stats e ob r =
     \<lparr>statistics = \<lparr>total_entities = e, total_observations = ob, total_relations = r\<rparr>\<rparr>"

definition config_ok :: "string \<Rightarrow> error + project_config" where
  "config_ok n = Inr \<lparr>project_url = ''/'' @ n\<rparr>"

definition config_missing :: "string \<Rightarrow> error + project_config" where
  "config_missing n = Inl (ValueError (''Project '' @ apos @ n @ apos @ '' not found''))"

definition removed :: project_status_response where
  "removed = \<lparr>message = ''removed'', new_project = None, old_project = None\<rparr>"

text \<open>
  A backend for the examples: the pin, the project list, the configuration lookup and
  the answer of the info endpoint are its arguments. The slug function stands in for
  \<^verbatim>\<open>generate_permalink\<close> on the example names only.
\<close>

definition backend ::
    "string option \<Rightarrow> project_item list \<Rightarrow> (string \<Rightarrow> error + project_config)
      \<Rightarrow> (error + project_info_response) \<Rightarrow> env" where
  "backend pin project_list config info =
     \<lparr>environ = (\<lambda>k. if k = ''BASIC_MEMORY_MCP_PROJECT'' then pin else None),
      projects_response = Inr project_list,
      info_response = (\<lambda>url n. info),
      create_response = (\<lambda>r. Inr removed),
      delete_response = (\<lambda>n. Inr removed),
      get_project_config = config,
      add_project_metadata = (\<lambda>result project. result),
      generate_permalink = (\<lambda>s. map (\<lambda>c. if c = CHR '' '' then CHR ''-'' else c) (lower s)),
      dedent = (\<lambda>s. s)\<rparr>"

section \<open>Properties\<close>

subsection \<open>Resolution\<close>

lemma find_target_none_matching_none:
  "find_target_project pl project_name ps = None \<Longrightarrow> find_matching_project project_name ps = None"
  by (induction ps) (auto split: if_splits)

lemma switch_project_unresolved:
  assumes "projects_response env = Inr project_list"
      and "find_matching_project project_name project_list = None"
  shows "switch_project env project_name w =
           (Inr (''Error: '' @ not_found_message project_name project_list),
            issue (GET ''/projects/projects'' []) w)"
  using assms by (simp add: switch_project_def Let_def)

lemma get_current_project_text:
  assumes "get_project_config env (current_project w) = Inr cfg"
      and "info_response env (project_url cfg @ ''/project/info'') (current_project w) = Inr info"
  shows "fst (get_current_project env w) = Inr (''Current project: '' @ current_project w @ nl @ nl)"
  using assms by (simp add: get_current_project_def session_get_current_project_def Let_def)

subsection \<open>Claims\<close>

text \<open>
  C6. When the name resolves against no project of the fetched list, \<open>switch_project\<close>
  returns the error text that enumerates every available name, the session's current
  project is the one before the call, and a following \<open>get_current_project\<close> (whose
  own two lookups succeed) reports that project.
\<close>

theorem switch_project_not_found:
  assumes "projects_response env = Inr project_list"
      and "find_matching_project project_name project_list = None"
  shows "fst (switch_project env project_name w) =
           Inr (''Error: Project '' @ apos @ project_name @ apos
                @ '' not found. Available projects: '' @ join '', '' (map name project_list))
         \<and> current_project (snd (switch_project env project_name w)) = current_project w
         \<and> (\<forall>cfg info.
               get_project_config env (current_project w) = Inr cfg \<longrightarrow>
               info_response env (project_url cfg @ ''/project/info'') (current_project w) = Inr info \<longrightarrow>
               fst (get_current_project env (snd (switch_project env project_name w))) =
                 Inr (''Current project: '' @ current_project w @ nl @ nl))"
proof -
  let ?w' = "issue (GET ''/projects/projects'' []) w"
  have run: "switch_project env project_name w =
               (Inr (''Error: '' @ not_found_message project_name project_list), ?w')"
    using assms by (rule switch_project_unresolved)
  have same: "current_project ?w' = current_project w"
    by (simp add: issue_def)
  have msg: "fst (switch_project env project_name w) =
                Inr (''Error: Project '' @ apos @ project_name @ apos
                     @ '' not found. Available projects: '' @ join '', '' (map name project_list))"
    by (simp add: run not_found_message_def)
  have after: "fst (get_current_project env ?w') = Inr (''Current project: '' @ current_project w @ nl @ nl)"
    if "get_project_config env (current_project w) = Inr cfg"
      and "info_response env (project_url cfg @ ''/project/info'') (current_project w) = Inr info"
    for cfg info
    using get_current_project_text [of env ?w' cfg info] that by (simp add: same)
  show ?thesis
    using msg same after by (simp add: run)
qed

theorem switch_project_not_found_witness:
  "fst (switch_project (backend None [alpha, beta] config_ok (Inr (stats 3 5 2)))
          ''missing-project'' on_alpha) =
     Inr (''Error: Project '' @ apos @ ''missing-project'' @ apos
          @ '' not found. Available projects: alpha, beta'')
   \<and> current_project
       (snd (switch_project (backend None [alpha, beta] config_ok (Inr (stats 3 5 2)))
          ''missing-project'' on_alpha)) = ''alpha''
   \<and> fst (get_current_project (backend None [alpha, beta] config_ok (Inr (stats 3 5 2)))
       (snd (switch_project (backend None [alpha, beta] config_ok (Inr (stats 3 5 2)))
          ''missing-project'' on_alpha))) = Inr (''Current project: alpha'' @ nl @ nl)"
proof -
  let ?env = "backend None [alpha, beta] config_ok (Inr (stats 3 5 2))"
  have fetched: "projects_response ?env = Inr [alpha, beta]"
    by (simp add: backend_def)
  have unresolved: "find_matching_project ''missing-project'' [alpha, beta] = None"
    by (simp add: alpha_def beta_def lower_def lower_char_def)
  have cfg: "get_project_config ?env (current_project on_alpha) = Inr \<lparr>project_url = ''/alpha''\<rparr>"
    by (simp add: backend_def config_ok_def on_alpha_def)
  have info: "info_response ?env (project_url \<lparr>project_url = ''/alpha''\<rparr> @ ''/project/info'')
                (current_project on_alpha) = Inr (stats 3 5 2)"
    by (simp add: backend_def)
  show ?thesis
    using switch_project_not_found [OF fetched unresolved, of on_alpha] cfg info
    by (simp add: alpha_def beta_def on_alpha_def)
qed

text \<open>
  C8. In a deployment constrained to one project, \<open>create_memory_project\<close> returns the
  disabled-operation message at once, whatever the name, the path and the default flag
  are, and the world is the one before the call: no request has been issued.
\<close>

theorem create_memory_project_constrained:
  assumes "environ env ''BASIC_MEMORY_MCP_PROJECT'' = Some pin" and "pin \<noteq> []"
  shows "create_memory_project env project_name project_path set_default w =
           (Inr (''# Error'' @ nl @ nl
                 @ ''Project creation disabled - MCP server is constrained to project ''
                 @ apos @ pin @ apos @ ''.'' @ nl
                 @ ''Use the CLI to create projects: `basic-memory project add ''
                 @ [CHR 0x22] @ project_name @ [CHR 0x22] @ '' ''
                 @ [CHR 0x22] @ project_path @ [CHR 0x22] @ ''`''), w)"
  using assms by (simp add: create_memory_project_def constrained_project_def)

theorem create_memory_project_constrained_witness:
  "create_memory_project (backend (Some ''alpha'') [alpha] config_ok (Inr (stats 3 5 2)))
      ''beta'' ''/tmp/beta'' False on_alpha =
     (Inr (''# Error'' @ nl @ nl
           @ ''Project creation disabled - MCP server is constrained to project ''
           @ apos @ ''alpha'' @ apos @ ''.'' @ nl
           @ ''Use the CLI to create projects: `basic-memory project add ''
           @ [CHR 0x22] @ ''beta'' @ [CHR 0x22] @ '' ''
           @ [CHR 0x22] @ ''/tmp/beta'' @ [CHR 0x22] @ ''`''), on_alpha)
   \<and> requests on_alpha = []"
proof -
  have pinned: "environ (backend (Some ''alpha'') [alpha] config_ok (Inr (stats 3 5 2)))
                  ''BASIC_MEMORY_MCP_PROJECT'' = Some ''alpha''"
    by (simp add: backend_def)
  have nonempty: "''alpha'' \<noteq> []"
    by simp
  show ?thesis
    using create_memory_project_constrained [OF pinned nonempty, of "''beta''" "''/tmp/beta''" False on_alpha]
    by (simp add: on_alpha_def)
qed

text \<open>
  C7. In an unconstrained deployment, when the name resolves against no project of the
  fetched list (neither by permalink nor by lowered name), \<open>delete_project\<close> raises
  \<^verbatim>\<open>ValueError\<close> with the text that enumerates every available name, after the one list
  request. On the same input \<open>switch_project\<close> returns that text as a result string.
\<close>

theorem delete_project_not_found:
  assumes "constrained_project env = None"
      and "projects_response env = Inr project_list"
      and "find_target_project (generate_permalink env project_name) project_name project_list = None"
  shows "delete_project env project_name w =
           (Inl (ValueError (''Project '' @ apos @ project_name @ apos
                             @ '' not found. Available projects: ''
                             @ join '', '' (map name project_list))),
            issue (GET ''/projects/projects'' []) w)
         \<and> fst (switch_project env project_name w) =
             Inr (''Error: Project '' @ apos @ project_name @ apos
                  @ '' not found. Available projects: '' @ join '', '' (map name project_list))"
proof -
  have raised: "delete_project env project_name w =
                  (Inl (ValueError (not_found_message project_name project_list)),
                   issue (GET ''/projects/projects'' []) w)"
    using assms by (simp add: delete_project_def Let_def)
  have "find_matching_project project_name project_list = None"
    using assms(3) by (rule find_target_none_matching_none)
  then have returned: "switch_project env project_name w =
                         (Inr (''Error: '' @ not_found_message project_name project_list),
                          issue (GET ''/projects/projects'' []) w)"
    using assms(2) by (simp add: switch_project_unresolved)
  show ?thesis
    by (simp add: raised returned not_found_message_def)
qed

theorem delete_project_not_found_witness:
  "delete_project (backend None [alpha, beta] config_ok (Inr (stats 3 5 2)))
      ''missing-project'' on_alpha =
     (Inl (ValueError (''Project '' @ apos @ ''missing-project'' @ apos
                       @ '' not found. Available projects: alpha, beta'')),
      \<lparr>current_project = ''alpha'', requests = [GET ''/projects/projects'' []], logged = []\<rparr>)
   \<and> fst (switch_project (backend None [alpha, beta] config_ok (Inr (stats 3 5 2)))
            ''missing-project'' on_alpha) =
       Inr (''Error: Project '' @ apos @ ''missing-project'' @ apos
            @ '' not found. Available projects: alpha, beta'')"
proof -
  let ?env = "backend None [alpha, beta] config_ok (Inr (stats 3 5 2))"
  have free: "constrained_project ?env = None"
    by (simp add: constrained_project_def backend_def)
  have fetched: "projects_response ?env = Inr [alpha, beta]"
    by (simp add: backend_def)
  have unresolved:
    "find_target_project (generate_permalink ?env ''missing-project'') ''missing-project''
       [alpha, beta] = None"
    by (simp add: backend_def alpha_def beta_def lower_def lower_char_def)
  show ?thesis
    using delete_project_not_found [OF free fetched unresolved, of on_alpha]
    by (simp add: alpha_def beta_def on_alpha_def issue_def)
qed

text \<open>
  C9. When the name resolves, the configuration lookup succeeds and the info request
  fails, \<open>switch_project\<close> still returns the success text, built without any statistics,
  and the session's current project is the resolved project's name.
\<close>

theorem switch_project_summary_unavailable:
  assumes "projects_response env = Inr project_list"
      and "find_matching_project project_name project_list = Some p"
      and "get_project_config env (name p) = Inr cfg"
      and "info_response env (project_url cfg @ ''/project/info'') (name p) = Inl e"
  shows "fst (switch_project env project_name w) =
           Inr (add_project_metadata env
                  (check_mark @ '' Switched to '' @ name p @ '' project'' @ nl @ nl
                   @ ''Project summary unavailable.'' @ nl)
                  (name p))
         \<and> current_project (snd (switch_project env project_name w)) = name p"
  using assms
  by (simp add: switch_project_def Let_def session_get_current_project_def
      session_set_current_project_def issue_def logger_def switched_no_summary_def)

theorem switch_project_summary_unavailable_witness:
  "fst (switch_project
          (backend None [alpha, beta] config_ok (Inl (RemoteCallFailure ''timeout'')))
          ''BETA'' on_alpha) =
     Inr (check_mark @ '' Switched to beta project'' @ nl @ nl
          @ ''Project summary unavailable.'' @ nl)
   \<and> current_project
       (snd (switch_project
          (backend None [alpha, beta] config_ok (Inl (RemoteCallFailure ''timeout'')))
          ''BETA'' on_alpha)) = ''beta''"
proof -
  let ?env = "backend None [alpha, beta] config_ok (Inl (RemoteCallFailure ''timeout''))"
  have fetched: "projects_response ?env = Inr [alpha, beta]"
    by (simp add: backend_def)
  have resolved: "find_matching_project ''BETA'' [alpha, beta] = Some beta"
    by (simp add: alpha_def beta_def lower_def lower_char_def)
  have cfg: "get_project_config ?env (name beta) = Inr \<lparr>project_url = ''/beta''\<rparr>"
    by (simp add: backend_def config_ok_def beta_def)
  have info: "info_response ?env (project_url \<lparr>project_url = ''/beta''\<rparr> @ ''/project/info'')
                (name beta) = Inl (RemoteCallFailure ''timeout'')"
    by (simp add: backend_def)
  show ?thesis
    using switch_project_summary_unavailable [OF fetched resolved cfg info, of on_alpha]
    by (simp add: backend_def beta_def)
qed

text \<open>
  C10. Neither \<open>create_memory_project\<close> nor \<open>delete_project\<close> writes the session's
  current project: after either call, returned or raised, it is the one before the
  call, whatever the project named.
\<close>

theorem create_delete_keep_current_project:
  "current_project (snd (create_memory_project env project_name project_path set_default w)) =
     current_project w
   \<and> current_project (snd (delete_project env project_name w)) = current_project w"
  by (simp add: create_memory_project_def delete_project_def unbound_name_def issue_def Let_def
      split: option.split sum.split)

subsection \<open>Where the handlers leave their documentation\<close>

lemma delete_project_resolved:
  assumes "constrained_project env = None"
      and "projects_response env = Inr project_list"
      and "find_target_project (generate_permalink env project_name) project_name project_list
             = Some target"
  shows "delete_project env project_name w =
           (Inl (NameError ''matching_project''), issue (GET ''/projects/projects'' []) w)"
  using assms by (simp add: delete_project_def unbound_name_def Let_def)

lemma list_memory_projects_fetched:
  assumes "projects_response env = Inr project_list"
  shows "list_memory_projects env w =
           (Inl (NameError ''current''), issue (GET ''/projects/projects'' []) w)"
  using assms by (simp add: list_memory_projects_def unbound_name_def Let_def)

lemma switch_project_config_raises:
  assumes "projects_response env = Inr project_list"
      and "find_matching_project project_name project_list = Some p"
      and "get_project_config env (name p) = Inl e"
  shows "current_project (snd (switch_project env project_name w)) = name p"
  using assms
  by (simp add: switch_project_def switch_failed_def Let_def session_get_current_project_def
      session_set_current_project_def issue_def logger_def)

lemma switch_project_fetch_raises:
  assumes "projects_response env = Inl e"
  shows "current_project (snd (switch_project env project_name w)) = current_project w"
  using assms
  by (simp add: switch_project_def switch_failed_def Let_def session_get_current_project_def
      session_set_current_project_def issue_def logger_def)

text \<open>
  C1. The session is on \<open>alpha\<close>, the backend lists \<open>alpha\<close> and \<open>beta\<close>, and the
  configuration lookup of line 110 raises for \<open>beta\<close>. \<open>switch_project ''beta''\<close> returns
  the failure text of lines 141-161 and leaves the session on \<open>beta\<close>: line 109 has
  overwritten the variable that line 138 writes back.
\<close>

theorem switch_project_failure_keeps_new_project:
  "current_project on_alpha = ''alpha''
   \<and> switch_project (backend None [alpha, beta] config_missing (Inr (stats 3 5 2)))
         ''beta'' on_alpha =
       (Inr (strip (switch_failed_text ''beta''
                      (ValueError (''Project '' @ apos @ ''beta'' @ apos @ '' not found''))
                      ''beta'')),
        \<lparr>current_project = ''beta'',
         requests = [GET ''/projects/projects'' []],
         logged = [Error (''Error switching to project beta: Project '' @ apos @ ''beta''
                          @ apos @ '' not found'')]\<rparr>)"
  by (simp add: switch_project_def switch_failed_def Let_def session_get_current_project_def
      session_set_current_project_def issue_def logger_def backend_def config_missing_def
      on_alpha_def alpha_def beta_def lower_def lower_char_def str_error_def)

text \<open>
  C2. The backend lists the project named \<open>My Project\<close> with permalink \<open>my-project\<close>.
  The loop of \<open>delete_project\<close> resolves the input \<open>my-project\<close> to it; \<open>switch_project\<close>
  compares lowered names only, finds nothing and returns the not-found error with the
  session unchanged.
\<close>

theorem switch_project_misses_permalink:
  "find_target_project
     (generate_permalink (backend None [my_project] config_ok (Inr (stats 3 5 2))) ''my-project'')
     ''my-project'' [my_project] = Some my_project
   \<and> find_matching_project ''my-project'' [my_project] = None
   \<and> switch_project (backend None [my_project] config_ok (Inr (stats 3 5 2)))
         ''my-project'' on_alpha =
       (Inr (''Error: Project '' @ apos @ ''my-project'' @ apos
             @ '' not found. Available projects: My Project''),
        \<lparr>current_project = ''alpha'', requests = [GET ''/projects/projects'' []], logged = []\<rparr>)"
  by (simp add: switch_project_def Let_def session_get_current_project_def issue_def
      backend_def on_alpha_def my_project_def lower_def lower_char_def not_found_message_def)

text \<open>
  C3. The backend lists \<open>alpha\<close> and \<open>beta\<close> and the deployment is unconstrained.
  \<open>delete_project ''alpha''\<close> resolves the name, then raises \<^verbatim>\<open>NameError\<close> at line 302:
  the only request issued is the list request, no delete request follows.
\<close>

theorem delete_project_raises_before_delete:
  "find_target_project
     (generate_permalink (backend None [alpha, beta] config_ok (Inr (stats 3 5 2))) ''alpha'')
     ''alpha'' [alpha, beta] = Some alpha
   \<and> delete_project (backend None [alpha, beta] config_ok (Inr (stats 3 5 2))) ''alpha'' on_alpha =
       (Inl (NameError ''matching_project''),
        \<lparr>current_project = ''alpha'', requests = [GET ''/projects/projects'' []], logged = []\<rparr>)"
  by (simp add: delete_project_def unbound_name_def Let_def constrained_project_def issue_def
      backend_def on_alpha_def alpha_def beta_def lower_def lower_char_def)

text \<open>
  C4. With the session on \<open>alpha\<close>, \<open>get_current_project\<close> issues the info request and
  returns the line naming the project and nothing else: the text is the same for two
  different statistics answers. The session is not written.
\<close>

theorem get_current_project_drops_statistics:
  "get_current_project (backend None [alpha] config_ok (Inr (stats 3 5 2))) on_alpha =
     (Inr (''Current project: alpha'' @ nl @ nl),
      \<lparr>current_project = ''alpha'',
       requests = [GET ''/alpha/project/info'' [(''project_name'', ''alpha'')]],
       logged = []\<rparr>)
   \<and> fst (get_current_project (backend None [alpha] config_ok (Inr (stats 40 50 60))) on_alpha) =
       Inr (''Current project: alpha'' @ nl @ nl)"
  by (simp add: get_current_project_def Let_def session_get_current_project_def issue_def
      backend_def config_ok_def on_alpha_def)

text \<open>
  C5. The backend lists \<open>alpha\<close> and \<open>beta\<close>. Pinned to \<open>alpha\<close> or unconstrained,
  \<open>list_memory_projects\<close> builds the report and then raises
  \<^verbatim>\<open>NameError\<close> at line 64 instead of returning it.
\<close>

theorem list_memory_projects_raises:
  "list_result (Some ''alpha'') [alpha, beta] =
     ''Project: alpha'' @ nl @ nl
     @ ''Note: This MCP server is constrained to a single project.'' @ nl
     @ ''All operations will automatically use this project.''
   \<and> list_result None [alpha, beta] =
       ''Available projects:'' @ nl @ bullet @ '' alpha'' @ nl @ bullet @ '' beta'' @ nl
   \<and> list_memory_projects (backend (Some ''alpha'') [alpha, beta] config_ok (Inr (stats 3 5 2)))
         on_alpha =
       (Inl (NameError ''current''),
        \<lparr>current_project = ''alpha'', requests = [GET ''/projects/projects'' []], logged = []\<rparr>)
   \<and> list_memory_projects (backend None [alpha, beta] config_ok (Inr (stats 3 5 2))) on_alpha =
       (Inl (NameError ''current''),
        \<lparr>current_project = ''alpha'', requests = [GET ''/projects/projects'' []], logged = []\<rparr>)"
  by (simp add: list_memory_projects_def list_result_def unbound_name_def Let_def issue_def
      backend_def on_alpha_def alpha_def beta_def)

end
